theory Spec2Isabelle
  imports Complex_Main
begin

section \<open>Data model of the verifier\<close>

text \<open>
  The development embeds \<^verbatim>\<open>ai_edge_torch/generative/utilities/verifier.py\<close>.
  Tensors are nested lists: a token tensor of shape (batch, sequence) is an
  \<open>int list list\<close>, a logits tensor of shape (batch, sequence, vocabulary) is an
  \<open>'f list list list\<close>. The type \<open>'f\<close> of the logit values is a parameter: it stands for the
  values of a floating-point tensor, NaN and the infinities among them. Where the program
  looks for a maximum, \<open>'f\<close> carries the linear order in which torch compares the values
  there (NaN counts as the largest). Every Python exception is a value of \<open>error\<close>, and a
  function that can raise returns \<open>error + 'a\<close>.
\<close>

datatype error =
    IndexError      \<comment> \<open>an index outside a list or tensor dimension\<close>
  | RuntimeError    \<comment> \<open>a tensor operation refused by torch (shapes, dtypes, tolerances)\<close>
  | ExternalError   \<comment> \<open>any exception raised inside a model, tokenizer or loader call\<close>

text \<open>The floating-point dtypes of torch.\<close>

datatype dtype = Float16 | BFloat16 | Float32 | Float64

type_synonym tokens = "int list list"
type_synonym 'f logits = "'f list list list"

text \<open>
  A model reauthored with the Generative API: its \<open>config\<close> attribute and its
  \<open>forward(tokens, input_pos, kv_cache)\<close>, whose result dictionary holds the entries
  \<open>logits\<close> and \<open>kv_cache\<close>. The cache type and the configuration type are parameters.
  \<open>logits_dtype\<close> is the dtype of the logits tensors the model computes.
\<close>

record ('cfg, 'kv, 'f) reauthored_model =
  config :: 'cfg
  logits_dtype :: dtype
  model_forward :: "tokens \<Rightarrow> nat list \<Rightarrow> 'kv \<Rightarrow> error + ('f logits \<times> 'kv)"

text \<open>
  The original model of the transformers package: \<open>forward(tokens).logits\<close> and its own
  \<open>generate(prompt_tokens)\<close>; \<open>orig_dtype\<close> is the dtype of the logits tensors it computes.
\<close>

record 'f original_model =
  orig_dtype :: dtype
  orig_forward :: "tokens \<Rightarrow> error + 'f logits"
  orig_generate :: "tokens \<Rightarrow> error + tokens"

text \<open>The tokenizer: \<open>encode(prompts, return_tensors="pt")\<close> and \<open>decode(ids)\<close>.\<close>

record tokenizer =
  encode :: "string \<Rightarrow> error + tokens"
  decode :: "int list \<Rightarrow> error + string"

section \<open>Indexing and reductions of torch and Python\<close>

text \<open>
  \<open>xs[i]\<close> for a Python list or one dimension of a tensor: a negative index counts from
  the end, an index outside the dimension raises IndexError.
\<close>

definition py_index :: "'a list \<Rightarrow> int \<Rightarrow> error + 'a" where
  "py_index xs i =
     (if 0 \<le> i \<and> i < int (length xs) then Inr (xs ! nat i)
      else if i < 0 \<and> - int (length xs) \<le> i then Inr (xs ! nat (int (length xs) + i))
      else Inl IndexError)"

text \<open>
  \<open>t.shape[1]\<close> of a two-dimensional tensor, the common length of its rows. A list of rows
  does not record the width of a tensor with no row, and 0 is taken there; every tensor the
  functions below hand to \<open>shape1\<close> has exactly one row.
\<close>

definition shape1 :: "'a list list \<Rightarrow> nat" where
  "shape1 t = (case t of [] \<Rightarrow> 0 | r # _ \<Rightarrow> length r)"

text \<open>
  \<open>row.argmax().item()\<close> on a one-dimensional tensor: the index of the first maximal
  value; on an empty tensor torch raises IndexError. \<open>argmax_scan xs i best bv\<close> scans the rest \<open>xs\<close>
  of the row, \<open>i\<close> being the index of its head and \<open>bv\<close> the largest value so far, found
  at index \<open>best\<close>.
\<close>

fun argmax_scan :: "('f :: linorder) list \<Rightarrow> nat \<Rightarrow> nat \<Rightarrow> 'f \<Rightarrow> nat" where
  "argmax_scan [] i best bv = best"
| "argmax_scan (x # xs) i best bv =
     (if bv < x then argmax_scan xs (Suc i) i x else argmax_scan xs (Suc i) best bv)"

definition argmax :: "('f :: linorder) list \<Rightarrow> error + int" where
  "argmax row =
     (case row of [] \<Rightarrow> Inl IndexError
      | x # xs \<Rightarrow> Inr (int (argmax_scan xs 1 0 x)))"

section \<open>forward and generate\<close>

text \<open>
  \<^verbatim>\<open>input_pos = torch.arange(0, tokens.shape[1], dtype=torch.int)
output = model.forward(tokens, input_pos, kv_cache)
return output["logits"], output["kv_cache"]\<close>
\<close>

definition forward ::
  "('cfg, 'kv, 'f) reauthored_model \<Rightarrow> tokens \<Rightarrow> 'kv \<Rightarrow> error + ('f logits \<times> 'kv)" where
  "forward model toks kv_cache =
     (let input_pos = [0..<shape1 toks]
      in model_forward model toks input_pos kv_cache)"

text \<open>\<^verbatim>\<open>logits[0][-1].argmax().item()\<close>\<close>

definition generated_token_of :: "('f :: linorder) logits \<Rightarrow> error + int" where
  "generated_token_of lg =
     (case py_index lg 0 of
        Inl e \<Rightarrow> Inl e
      | Inr batch0 \<Rightarrow>
          (case py_index batch0 (- 1) of
             Inl e \<Rightarrow> Inl e
           | Inr last_row \<Rightarrow> argmax last_row))"

text \<open>
  The body of \<open>for _ in range(response_len - len(input_ids))\<close>, run \<open>n\<close> times on the
  loop state (\<open>input_ids\<close>, \<open>kv_cache\<close>). An exception leaves the loop at once.
\<close>

fun generate_loop ::
  "('cfg, 'kv, 'f :: linorder) reauthored_model \<Rightarrow> nat \<Rightarrow> int list \<Rightarrow> 'kv
     \<Rightarrow> error + (int list \<times> 'kv)" where
  "generate_loop model 0 input_ids kv_cache = Inr (input_ids, kv_cache)"
| "generate_loop model (Suc n) input_ids kv_cache =
     (case forward model [input_ids] kv_cache of
        Inl e \<Rightarrow> Inl e
      | Inr (lg, kv_cache') \<Rightarrow>
          (case generated_token_of lg of
             Inl e \<Rightarrow> Inl e
           | Inr generated_token \<Rightarrow>
               generate_loop model n (input_ids @ [generated_token]) kv_cache'))"

text \<open>
  \<open>generate(model, prompts, response_len)\<close>. The constructor
  \<open>KVCache.from_model_config\<close> lives in the layers package and is a parameter here.
  \<open>range(k)\<close> is empty for \<open>k \<le> 0\<close>, which is \<open>nat k = 0\<close>.
\<close>

definition generate ::
  "('cfg \<Rightarrow> 'kv) \<Rightarrow> ('cfg, 'kv, 'f :: linorder) reauthored_model \<Rightarrow> tokens \<Rightarrow> int
     \<Rightarrow> error + tokens" where
  "generate from_model_config model prompts response_len =
     (case py_index prompts 0 of
        Inl e \<Rightarrow> Inl e
      | Inr input_ids \<Rightarrow>
          (let kv_cache = from_model_config (config model)
           in case generate_loop model (nat (response_len - int (length input_ids)))
                     input_ids kv_cache of
                Inl e \<Rightarrow> Inl e
              | Inr (ids, _) \<Rightarrow> Inr [ids]))"

section \<open>Console output\<close>

text \<open>
  \<open>_log_msg(*args)\<close> prints one line: a time stamp, then its arguments. The console is the
  list of the lines printed so far, each line the list of its arguments; the time stamp is
  left out. A function that prints returns its result together with the lines it printed,
  also when it raises.
\<close>

datatype 'f log_arg = Str string | Vec "'f list"

type_synonym 'f log_line = "'f log_arg list"

section \<open>The single-step comparator\<close>

text \<open>\<open>torch.full((1, kv_cache_max_len), 0)\<close>, as its only row; torch refuses a negative size.\<close>

definition torch_full_row :: "int \<Rightarrow> error + int list" where
  "torch_full_row kv_cache_max_len =
     (if kv_cache_max_len < 0 then Inl RuntimeError
      else Inr (replicate (nat kv_cache_max_len) 0))"

text \<open>
  \<open>tokens[0, :n] = value\<close> on the row of \<open>tokens\<close>. The slice is clipped to the row, so the
  destination has \<open>min n (length row)\<close> elements. torch drops the leading dimensions of size 1
  of the value and then expands it to the destination: a value of one row of the
  destination's length is copied, a value of a single element is repeated over the
  destination, and any other shape is refused.
\<close>

definition assign_row_prefix :: "int list \<Rightarrow> nat \<Rightarrow> tokens \<Rightarrow> error + int list" where
  "assign_row_prefix row n val =
     (let d = min n (length row)
      in case val of
           [v] \<Rightarrow>
             (if length v = d then Inr (v @ drop d row)
              else if length v = 1 then Inr (replicate d (hd v) @ drop d row)
              else Inl RuntimeError)
         | _ \<Rightarrow> Inl RuntimeError)"

text \<open>The first three statements of \<open>verify_with_input_ids\<close>: the padded token buffer.\<close>

definition padded_tokens :: "tokens \<Rightarrow> int \<Rightarrow> error + tokens" where
  "padded_tokens input_ids kv_cache_max_len =
     (case torch_full_row kv_cache_max_len of
        Inl e \<Rightarrow> Inl e
      | Inr row \<Rightarrow>
          (let input_ids_len = shape1 input_ids
           in case assign_row_prefix row input_ids_len input_ids of
                Inl e \<Rightarrow> Inl e
              | Inr row' \<Rightarrow> Inr [row']))"

text \<open>\<open>logits[0, i, :]\<close>\<close>

definition logits_at :: "'f logits \<Rightarrow> int \<Rightarrow> error + 'f list" where
  "logits_at lg i =
     (case py_index lg 0 of
        Inl e \<Rightarrow> Inl e
      | Inr batch0 \<Rightarrow> py_index batch0 i)"

text \<open>
  The arithmetic torch applies to the elements of a tensor of one dtype, as far as
  \<open>torch.isclose\<close> uses it: the rounded difference of two elements, the absolute value, the
  product \<open>r * x\<close> and the sum \<open>a + x\<close> of a Python float with an element, the comparisons
  \<open>==\<close> and \<open>\<le>\<close> of IEEE 754 (both false on NaN) and \<open>isfinite\<close>.
\<close>

record 'f float_ops =
  f_sub :: "'f \<Rightarrow> 'f \<Rightarrow> 'f"
  f_abs :: "'f \<Rightarrow> 'f"
  f_rmul :: "real \<Rightarrow> 'f \<Rightarrow> 'f"
  f_radd :: "real \<Rightarrow> 'f \<Rightarrow> 'f"
  f_eq :: "'f \<Rightarrow> 'f \<Rightarrow> bool"
  f_le :: "'f \<Rightarrow> 'f \<Rightarrow> bool"
  f_isfinite :: "'f \<Rightarrow> bool"

text \<open>
  The one law of floating-point arithmetic the development relies on: the conversion of a
  Python float to the dtype and the rounded addition are monotone, so a bound \<open>e \<le> a + c\<close>
  that holds for a scalar \<open>a\<close> holds for every larger scalar. An \<open>arithmetic\<close> is a
  collection of operations with this law.
\<close>

definition scalar_add_monotone :: "'f float_ops \<Rightarrow> bool" where
  "scalar_add_monotone ops =
     (\<forall>a b e c. a \<le> b \<and> f_le ops e (f_radd ops a c) \<longrightarrow> f_le ops e (f_radd ops b c))"

typedef 'f arithmetic = "{ops :: 'f float_ops. scalar_add_monotone ops}"
proof
  show "\<lparr>f_sub = (\<lambda>x y. x), f_abs = (\<lambda>x. x), f_rmul = (\<lambda>r x. x), f_radd = (\<lambda>a x. x),
         f_eq = (\<lambda>x y. True), f_le = (\<lambda>x y. True), f_isfinite = (\<lambda>x. True)\<rparr>
          \<in> {ops :: 'f float_ops. scalar_add_monotone ops}"
    by (simp add: scalar_add_monotone_def)
qed

setup_lifting type_definition_arithmetic

text \<open>
  \<open>torch.isclose\<close> on one pair of elements, with the tolerances \<open>rtol\<close> and \<open>atol\<close>, not both
  zero, and \<open>equal_nan=False\<close>:
  \<^verbatim>\<open>close = self == other
allowed_error = atol + (rtol * other).abs()
actual_error = (self - other).abs()
close |= isfinite(actual_error) & (actual_error <= allowed_error)\<close>
\<close>

definition isclose :: "'f arithmetic \<Rightarrow> real \<Rightarrow> real \<Rightarrow> 'f \<Rightarrow> 'f \<Rightarrow> bool" where
  "isclose ar rtol atol x y =
     (let ops = Rep_arithmetic ar;
          allowed_error = f_radd ops atol (f_abs ops (f_rmul ops rtol y));
          actual_error = f_abs ops (f_sub ops x y)
      in f_eq ops x y \<or> (f_isfinite ops actual_error \<and> f_le ops actual_error allowed_error))"

text \<open>
  \<open>torch.allclose(input, other, atol=atol)\<close> on two vectors of the dtypes \<open>dx\<close> and \<open>dy\<close>;
  \<open>ta\<close> gives the arithmetic of each dtype. The call leaves \<open>rtol\<close> at its default
  \<open>1e-05\<close>. torch refuses two tensors of different dtypes, a negative tolerance and two
  lengths that do not broadcast (equal, or one of them 1); otherwise the result is true when
  every pair of elements is close.
\<close>

definition default_rtol :: real where
  "default_rtol = 1 / 100000"

definition allclose ::
  "(dtype \<Rightarrow> 'f arithmetic) \<Rightarrow> dtype \<Rightarrow> 'f list \<Rightarrow> dtype \<Rightarrow> 'f list \<Rightarrow> real \<Rightarrow> error + bool" where
  "allclose ta dx xs dy ys atol =
     (if dx \<noteq> dy then Inl RuntimeError
      else if atol < 0 then Inl RuntimeError
      else if length xs = length ys
        then Inr (list_all2 (isclose (ta dx) default_rtol atol) xs ys)
      else if length xs = 1
        then Inr (list_all (\<lambda>y. isclose (ta dx) default_rtol atol (hd xs) y) ys)
      else if length ys = 1
        then Inr (list_all (\<lambda>x. isclose (ta dx) default_rtol atol x (hd ys)) xs)
      else Inl RuntimeError)"

text \<open>
  \<open>verify_with_input_ids\<close>; besides the cache constructor it takes the arithmetic \<open>ta\<close> of
  torch as a parameter.
\<close>

definition verify_with_input_ids ::
  "(dtype \<Rightarrow> 'f arithmetic) \<Rightarrow> ('cfg \<Rightarrow> 'kv) \<Rightarrow> 'f original_model
     \<Rightarrow> ('cfg, 'kv, 'f) reauthored_model \<Rightarrow> tokens \<Rightarrow> int \<Rightarrow> real
     \<Rightarrow> (error + bool) \<times> 'f log_line list" where
  "verify_with_input_ids ta from_model_config original_model reauthored_model input_ids
       kv_cache_max_len atol =
     (case padded_tokens input_ids kv_cache_max_len of
        Inl e \<Rightarrow> (Inl e, [])
      | Inr toks \<Rightarrow>
     let input_ids_len = shape1 input_ids;
         log1 = [[Str ''Forwarding the original model...'']]
     in case orig_forward original_model toks of
        Inl e \<Rightarrow> (Inl e, log1)
      | Inr outputs_original \<Rightarrow>
     case logits_at outputs_original (int input_ids_len - 1) of
        Inl e \<Rightarrow> (Inl e, log1)
      | Inr logits_original \<Rightarrow>
     let log2 = log1 @ [[Str ''logits_original: '', Vec logits_original],
                        [Str ''Forwarding the reauthored model...'']];
         kv_cache = from_model_config (config reauthored_model)
     in case forward reauthored_model toks kv_cache of
        Inl e \<Rightarrow> (Inl e, log2)
      | Inr outputs_reauthored \<Rightarrow>
     case logits_at (fst outputs_reauthored) (int input_ids_len - 1) of
        Inl e \<Rightarrow> (Inl e, log2)
      | Inr logits_reauthored \<Rightarrow>
     let log3 = log2 @ [[Str ''logits_reauthored:'', Vec logits_reauthored]]
     in (allclose ta (orig_dtype original_model) logits_original
           (logits_dtype reauthored_model) logits_reauthored atol, log3))"

section \<open>The multi-step comparator\<close>

definition verify_model_with_prompts ::
  "('cfg \<Rightarrow> 'kv) \<Rightarrow> 'f original_model \<Rightarrow> ('cfg, 'kv, 'f :: linorder) reauthored_model
     \<Rightarrow> tokenizer \<Rightarrow> string \<Rightarrow> (error + bool) \<times> 'f log_line list" where
  "verify_model_with_prompts from_model_config original_model reauthored_model tokenizer prompts =
     (case encode tokenizer prompts of
        Inl e \<Rightarrow> (Inl e, [])
      | Inr prompt_tokens \<Rightarrow>
     let log1 = [[Str ''Generating answer with the original model...'']]
     in case orig_generate original_model prompt_tokens of
        Inl e \<Rightarrow> (Inl e, log1)
      | Inr outputs_original \<Rightarrow>
     case py_index outputs_original 0 of
        Inl e \<Rightarrow> (Inl e, log1)
      | Inr row_original \<Rightarrow>
     case decode tokenizer row_original of
        Inl e \<Rightarrow> (Inl e, log1)
      | Inr response_original \<Rightarrow>
     let log2 = log1 @ [[Str ''outputs_from_original_model: [['', Str response_original, Str '']]''],
                        [Str ''Generating answer with the reauthored model...'']];
         generate_len = int (length row_original)
     in case generate from_model_config reauthored_model prompt_tokens generate_len of
        Inl e \<Rightarrow> (Inl e, log2)
      | Inr outputs_reauthored \<Rightarrow>
     case py_index outputs_reauthored 0 of
        Inl e \<Rightarrow> (Inl e, log2)
      | Inr row_reauthored \<Rightarrow>
     case decode tokenizer row_reauthored of
        Inl e \<Rightarrow> (Inl e, log2)
      | Inr response_reauthored \<Rightarrow>
     let log3 = log2 @ [[Str ''outputs from reauthored model: [['', Str response_reauthored,
                         Str '']]'']]
     in (Inr (response_original = response_reauthored), log3))"

section \<open>The orchestrator\<close>

text \<open>
  What \<open>verify_reauthored_transformers\<close> reaches outside the repository: the loaders of the
  transformers package (\<open>'kw\<close> stands for the keyword arguments handed to them),
  \<open>os.path.exists\<close>, \<open>transformers.utils.cached_file\<close> and the parent of a path.
\<close>

record ('kw, 'f) hub =
  model_from_pretrained :: "string \<Rightarrow> 'kw \<Rightarrow> error + 'f original_model"
  tokenizer_from_pretrained :: "string \<Rightarrow> 'kw \<Rightarrow> error + tokenizer"
  path_exists :: "string \<Rightarrow> bool"
  cached_file :: "string \<Rightarrow> string \<Rightarrow> error + string"
  path_parent :: "string \<Rightarrow> string"

definition DEFAULT_PROMPTS_FOR_VERIFICATION :: string where
  "DEFAULT_PROMPTS_FOR_VERIFICATION = ''What is the meaning of life?''"

definition CONFIG_NAME :: string where
  "CONFIG_NAME = ''config.json''"

text \<open>The default arguments of \<open>verify_with_input_ids\<close>.\<close>

definition default_input_ids :: tokens where
  "default_input_ids = [[1, 2, 3, 4]]"

definition default_kv_cache_max_len :: int where
  "default_kv_cache_max_len = 1024"

text \<open>The block under \<open># Locate the cached dir.\<close>\<close>

definition locate_cached_dir ::
  "('kw, 'f) hub \<Rightarrow> string \<Rightarrow> (error + string) \<times> 'f log_line list" where
  "locate_cached_dir h checkpoint =
     (if path_exists h checkpoint then (Inr checkpoint, [])
      else case cached_file h checkpoint CONFIG_NAME of
             Inl e \<Rightarrow> (Inl e, [])
           | Inr cached_config_file \<Rightarrow>
               (Inr (path_parent h cached_config_file),
                [[Str ''cached_config_file: '', Str cached_config_file]]))"

text \<open>\<open>_log_msg("PASS")\<close> or \<open>_log_msg("FAILED")\<close>\<close>

definition verdict :: "bool \<Rightarrow> 'f log_line" where
  "verdict ok = (if ok then [Str ''PASS''] else [Str ''FAILED''])"

definition verify_reauthored_transformers ::
  "(dtype \<Rightarrow> 'f arithmetic) \<Rightarrow> ('cfg \<Rightarrow> 'kv) \<Rightarrow> ('kw, 'f) hub \<Rightarrow> string
     \<Rightarrow> (string \<Rightarrow> int \<Rightarrow> error + ('cfg, 'kv, 'f :: linorder) reauthored_model)
     \<Rightarrow> string \<Rightarrow> real \<Rightarrow> string option \<Rightarrow> 'kw \<Rightarrow> (error + unit) \<times> 'f log_line list" where
  "verify_reauthored_transformers ta from_model_config h checkpoint reauthored_model_builer
       prompts atol tokenizer_checkpoint kwargs_for_original_model =
     (let log0 = [[Str ''Loading checkpoint from'', Str checkpoint]]
      in case model_from_pretrained h checkpoint kwargs_for_original_model of
        Inl e \<Rightarrow> (Inl e, log0)
      | Inr original_model \<Rightarrow>
     case locate_cached_dir h checkpoint of
        (Inl e, located) \<Rightarrow> (Inl e, log0 @ located)
      | (Inr reauthored_checkpoint, located) \<Rightarrow>
     let log1 = log0 @ located
                @ [[Str ''Instantiating the reauthored model from'', Str reauthored_checkpoint]];
         kv_cache_max_len = 1024
     in case reauthored_model_builer reauthored_checkpoint kv_cache_max_len of
        Inl e \<Rightarrow> (Inl e, log1)
      | Inr reauthored_model \<Rightarrow>
     let log2 = log1 @ [[Str ''Verifying the reauthored model with an arbitrary input...'']]
     in case verify_with_input_ids ta from_model_config original_model reauthored_model
               default_input_ids default_kv_cache_max_len atol of
        (Inl e, printed) \<Rightarrow> (Inl e, log2 @ printed)
      | (Inr ok1, printed) \<Rightarrow>
     let log3 = log2 @ printed @ [verdict ok1];
         tokenizer_checkpoint' =
           (case tokenizer_checkpoint of None \<Rightarrow> checkpoint | Some t \<Rightarrow> t);
         log4 = log3 @ [[Str ''Loading tokenizer from'', Str tokenizer_checkpoint']]
     in case tokenizer_from_pretrained h tokenizer_checkpoint' kwargs_for_original_model of
        Inl e \<Rightarrow> (Inl e, log4)
      | Inr tokenizer \<Rightarrow>
     let log5 = log4 @ [[Str ''Verifying the reauthored model with prompts:'', Str prompts]]
     in case verify_model_with_prompts from_model_config original_model reauthored_model
               tokenizer prompts of
        (Inl e, printed2) \<Rightarrow> (Inl e, log5 @ printed2)
      | (Inr ok2, printed2) \<Rightarrow> (Inr (), log5 @ printed2 @ [verdict ok2]))"

section \<open>Predicates used in the statements\<close>

text \<open>
  The comparison in the words of the specification: every element-wise absolute difference
  is within the tolerance.
\<close>

definition spec_within_atol :: "real list \<Rightarrow> real list \<Rightarrow> real \<Rightarrow> bool" where
  "spec_within_atol xs ys atol = list_all2 (\<lambda>x y. \<bar>x - y\<bar> \<le> atol) xs ys"

text \<open>
  A model answers every call when, on every non-empty single row with its positions, its
  forward returns and the logits it returns have a first batch entry with a last position
  and a non-empty vocabulary.
\<close>

definition answers_every_call :: "('cfg, 'kv, 'f :: linorder) reauthored_model \<Rightarrow> bool" where
  "answers_every_call model =
     (\<forall>ids kv. ids \<noteq> [] \<longrightarrow>
        (\<exists>lg kv' tok. model_forward model [ids] [0..<length ids] kv = Inr (lg, kv')
                     \<and> generated_token_of lg = Inr tok))"

section \<open>Stub models for concrete runs\<close>

text \<open>
  The concrete runs take real numbers as logit values, with the arithmetic that does not
  round: every real is finite, and the operations are those of the reals.
\<close>

lift_definition exact_arithmetic :: "real arithmetic" is
  "\<lparr>f_sub = (\<lambda>x y. x - y), f_abs = (\<lambda>x. \<bar>x\<bar>), f_rmul = (\<lambda>r x. r * x),
    f_radd = (\<lambda>a x. a + x), f_eq = (\<lambda>x y. x = y), f_le = (\<lambda>x y. x \<le> y),
    f_isfinite = (\<lambda>x. True)\<rparr>"
  by (simp add: scalar_add_monotone_def)

definition exact :: "dtype \<Rightarrow> real arithmetic" where
  "exact d = exact_arithmetic"

text \<open>
  A deterministic stub over a vocabulary of three tokens: at every position the largest
  logit sits at the successor (modulo 3) of the token read there. Its cache counts the
  calls made so far.
\<close>

definition succ_logits :: "int \<Rightarrow> real list" where
  "succ_logits t =
     [if t mod 3 = 2 then 1 else 0, if t mod 3 = 0 then 1 else 0, if t mod 3 = 1 then 1 else 0]"

definition succ_model :: "(unit, nat, real) reauthored_model" where
  "succ_model =
     \<lparr>config = (), logits_dtype = Float32,
      model_forward = (\<lambda>toks pos kv. Inr (map (map succ_logits) toks, Suc kv))\<rparr>"

definition fresh_cache :: "unit \<Rightarrow> nat" where
  "fresh_cache c = 0"

text \<open>A model whose forward always raises.\<close>

definition failing_model :: "(unit, nat, real) reauthored_model" where
  "failing_model =
     \<lparr>config = (), logits_dtype = Float32,
      model_forward = (\<lambda>toks pos kv. Inl ExternalError)\<rparr>"

text \<open>
  An original model that answers every position with the logit vector \<open>row\<close> and whose own
  generation appends the tokens \<open>cont\<close> to every prompt row; a reauthored model that
  answers every position with \<open>row\<close>.
\<close>

definition stub_original :: "real list \<Rightarrow> int list \<Rightarrow> real original_model" where
  "stub_original row cont =
     \<lparr>orig_dtype = Float32,
      orig_forward = (\<lambda>toks. Inr (map (map (\<lambda>t. row)) toks)),
      orig_generate = (\<lambda>toks. Inr (map (\<lambda>r. r @ cont) toks))\<rparr>"

definition const_reauthored :: "real list \<Rightarrow> (unit, nat, real) reauthored_model" where
  "const_reauthored row =
     \<lparr>config = (), logits_dtype = Float32,
      model_forward = (\<lambda>toks pos kv. Inr (map (map (\<lambda>t. row)) toks, Suc kv))\<rparr>"

text \<open>
  Models that answer with one fixed logits tensor, whatever the tokens are.
\<close>

definition fixed_original :: "real logits \<Rightarrow> real original_model" where
  "fixed_original lg =
     \<lparr>orig_dtype = Float32, orig_forward = (\<lambda>toks. Inr lg),
      orig_generate = (\<lambda>toks. Inr toks)\<rparr>"

definition fixed_reauthored :: "real logits \<Rightarrow> (unit, nat, real) reauthored_model" where
  "fixed_reauthored lg =
     \<lparr>config = (), logits_dtype = Float32,
      model_forward = (\<lambda>toks pos kv. Inr (lg, Suc kv))\<rparr>"

text \<open>A tokenizer over the letters a, b, c, which are the tokens 0, 1, 2.\<close>

definition abc_tokenizer :: tokenizer where
  "abc_tokenizer =
     \<lparr>encode = (\<lambda>s. Inr [map (\<lambda>c. if c = CHR ''a'' then 0 else if c = CHR ''b'' then 1 else 2) s]),
      decode = (\<lambda>ids. Inr (map (\<lambda>i. if i = 0 then CHR ''a'' else if i = 1 then CHR ''b''
                                     else CHR ''c'') ids))\<rparr>"

text \<open>
  A hub where every path exists and every load succeeds: it hands out the original model
  given to it and the tokenizer above.
\<close>

definition stub_hub :: "real original_model \<Rightarrow> (unit, real) hub" where
  "stub_hub m =
     \<lparr>model_from_pretrained = (\<lambda>checkpoint kw. Inr m),
      tokenizer_from_pretrained = (\<lambda>checkpoint kw. Inr abc_tokenizer),
      path_exists = (\<lambda>p. True),
      cached_file = (\<lambda>checkpoint name. Inl ExternalError),
      path_parent = (\<lambda>p. p)\<rparr>"

definition succ_builder :: "string \<Rightarrow> int \<Rightarrow> error + (unit, nat, real) reauthored_model" where
  "succ_builder checkpoint kv_cache_max_len = Inr succ_model"

section \<open>Properties of the decode loop\<close>

lemma py_index_0_Cons: "py_index (x # xs) 0 = Inr x"
  by (simp add: py_index_def)

lemma py_index_0_Inr: "py_index xs 0 = Inr x \<Longrightarrow> \<exists>rest. xs = x # rest"
  by (cases xs) (simp_all add: py_index_def)

lemma generate_loop_append:
  "generate_loop model n ids kv = Inr (ids', kv') \<Longrightarrow>
     \<exists>ext. ids' = ids @ ext \<and> length ext = n"
proof (induction n arbitrary: ids kv)
  case 0
  then show ?case by simp
next
  case (Suc n)
  from Suc.prems obtain lg kv1 tok where
    step: "generate_loop model n (ids @ [tok]) kv1 = Inr (ids', kv')"
    by (auto split: sum.splits)
  from Suc.IH [OF step] obtain ext where "ids' = (ids @ [tok]) @ ext" "length ext = n"
    by blast
  then have "ids' = ids @ (tok # ext) \<and> length (tok # ext) = Suc n"
    by simp
  then show ?case by blast
qed

text \<open>
  C4. If the target length is less than or equal to the prompt length, the loop body never
  runs (whatever the model is, the loop state comes back as it went in) and generate
  returns the prompt row unchanged.
\<close>

theorem generate_short_target_identity:
  assumes "response_len \<le> int (length p)"
  shows "generate from_model_config model (p # rest) response_len = Inr [p]
       \<and> generate_loop model (nat (response_len - int (length p))) p kv = Inr (p, kv)"
  using assms by (simp add: generate_def py_index_0_Cons)

theorem generate_short_target_identity_witness:
  "generate fresh_cache failing_model [[5, 6, 7]] 2 = Inr [[5, 6, 7]]
 \<and> generate_loop failing_model (nat (2 - int (length [5, 6, 7 :: int]))) [5, 6, 7] 0
     = Inr ([5, 6, 7], 0)"
  using generate_short_target_identity [of 2 "[5, 6, 7]" fresh_cache failing_model "[]" 0]
  by simp

lemma generate_loop_add:
  "generate_loop model (a + b) ids kv =
     (case generate_loop model a ids kv of
        Inl e \<Rightarrow> Inl e
      | Inr (ids1, kv1) \<Rightarrow> generate_loop model b ids1 kv1)"
  by (induction a arbitrary: ids kv) (auto split: sum.splits)

lemma argmax_scan_inv:
  assumes "length pre = i" and "best < i" and "(pre @ xs) ! best = bv"
    and "\<forall>v\<in>set pre. v \<le> bv" and "\<forall>k<best. (pre @ xs) ! k < bv"
  shows "argmax_scan xs i best bv < length (pre @ xs)
       \<and> (\<forall>v\<in>set (pre @ xs). v \<le> (pre @ xs) ! argmax_scan xs i best bv)
       \<and> (\<forall>k<argmax_scan xs i best bv. (pre @ xs) ! k < (pre @ xs) ! argmax_scan xs i best bv)"
  using assms
proof (induction xs arbitrary: pre i best bv)
  case Nil
  then show ?case by auto
next
  case (Cons x xs)
  have eq: "pre @ x # xs = (pre @ [x]) @ xs" by simp
  show ?case
  proof (cases "bv < x")
    case True
    have a: "length (pre @ [x]) = Suc i" using Cons.prems by simp
    have b: "((pre @ [x]) @ xs) ! i = x" using Cons.prems by (simp add: nth_append)
    have c: "\<forall>v\<in>set (pre @ [x]). v \<le> x" using Cons.prems True by auto
    have d: "\<forall>k<i. ((pre @ [x]) @ xs) ! k < x"
    proof (intro allI impI)
      fix k assume "k < i"
      then have "((pre @ [x]) @ xs) ! k = pre ! k" "pre ! k \<in> set pre"
        using Cons.prems(1) by (simp_all add: nth_append)
      then show "((pre @ [x]) @ xs) ! k < x" using Cons.prems(4) True by fastforce
    qed
    from Cons.IH [OF a _ b c d] True show ?thesis unfolding eq by simp
  next
    case False
    have a: "length (pre @ [x]) = Suc i" using Cons.prems by simp
    have b: "((pre @ [x]) @ xs) ! best = bv" using Cons.prems by simp
    have c: "\<forall>v\<in>set (pre @ [x]). v \<le> bv" using Cons.prems False by auto
    have d: "\<forall>k<best. ((pre @ [x]) @ xs) ! k < bv" using Cons.prems by simp
    have e: "best < Suc i" using Cons.prems by simp
    from Cons.IH [OF a e b c d] False show ?thesis unfolding eq by simp
  qed
qed

lemma argmax_Inr:
  assumes "argmax row = Inr tok"
  shows "0 \<le> tok \<and> nat tok < length row \<and> (\<forall>v\<in>set row. v \<le> row ! nat tok)
       \<and> (\<forall>k<nat tok. row ! k < row ! nat tok)"
proof (cases row)
  case Nil
  with assms show ?thesis by (simp add: argmax_def)
next
  case (Cons x xs)
  with assms have t: "tok = int (argmax_scan xs 1 0 x)" by (simp add: argmax_def)
  have "argmax_scan xs 1 0 x < length ([x] @ xs)
       \<and> (\<forall>v\<in>set ([x] @ xs). v \<le> ([x] @ xs) ! argmax_scan xs 1 0 x)
       \<and> (\<forall>k<argmax_scan xs 1 0 x. ([x] @ xs) ! k < ([x] @ xs) ! argmax_scan xs 1 0 x)"
    by (rule argmax_scan_inv) simp_all
  with t Cons show ?thesis by simp
qed

lemma py_index_last: "py_index xs (- 1) = Inr x \<Longrightarrow> xs \<noteq> [] \<and> x = last xs"
  by (cases "xs = []") (auto simp: py_index_def last_conv_nth nat_diff_distrib split: if_splits)

lemma generated_token_of_Inr:
  assumes "generated_token_of lg = Inr tok"
  shows "lg \<noteq> [] \<and> hd lg \<noteq> [] \<and> argmax (last (hd lg)) = Inr tok"
proof -
  from assms obtain b0 r where b0: "py_index lg 0 = Inr b0" and r: "py_index b0 (- 1) = Inr r"
    and a: "argmax r = Inr tok"
    by (auto simp: generated_token_of_def split: sum.splits)
  from py_index_0_Inr [OF b0] obtain rest where "lg = b0 # rest" by blast
  with py_index_last [OF r] a show ?thesis by simp
qed

lemma generate_loop_snoc:
  "generate_loop model (Suc n) ids kv =
     (case generate_loop model n ids kv of
        Inl e \<Rightarrow> Inl e
      | Inr (ids1, kv1) \<Rightarrow> generate_loop model (Suc 0) ids1 kv1)"
  using generate_loop_add [of model n "Suc 0" ids kv] by simp

lemma generate_loop_returns:
  assumes "answers_every_call model" and "ids \<noteq> []"
  shows "\<exists>ids' kv'. generate_loop model n ids kv = Inr (ids', kv')"
  using assms(2)
proof (induction n arbitrary: ids kv)
  case 0
  then show ?case by simp
next
  case (Suc n)
  from assms(1) Suc.prems obtain lg kv1 tok where
    "model_forward model [ids] [0..<length ids] kv = Inr (lg, kv1)"
    "generated_token_of lg = Inr tok"
    unfolding answers_every_call_def by blast
  moreover have "\<exists>ids' kv'. generate_loop model n (ids @ [tok]) kv1 = Inr (ids', kv')"
    by (rule Suc.IH) simp
  ultimately show ?case by (simp add: forward_def shape1_def)
qed

lemma generate_Inr_loop:
  assumes "generate fmc model (p # rest) response_len = Inr out"
  shows "\<exists>ids kv. generate_loop model (nat (response_len - int (length p))) p (fmc (config model))
                    = Inr (ids, kv) \<and> out = [ids]"
  using assms by (auto simp: generate_def py_index_0_Cons split: sum.splits)

lemma generate_loop_upto:
  assumes "generate_loop model n p kv0 = Inr (ids, kv)" and "j \<le> n"
  shows "\<exists>kvj. generate_loop model j p kv0 = Inr (take (length p + j) ids, kvj)
             \<and> generate_loop model (n - j) (take (length p + j) ids) kvj = Inr (ids, kv)"
proof -
  from assms have "generate_loop model (j + (n - j)) p kv0 = Inr (ids, kv)"
    by simp
  then obtain idsj kvj where j: "generate_loop model j p kv0 = Inr (idsj, kvj)"
    and r: "generate_loop model (n - j) idsj kvj = Inr (ids, kv)"
    by (auto simp: generate_loop_add split: sum.splits)
  from generate_loop_append [OF j] obtain e1 where e1: "idsj = p @ e1" "length e1 = j" by blast
  from generate_loop_append [OF r] obtain e2 where e2: "ids = idsj @ e2" by blast
  from e1 e2 have "take (length p + j) ids = idsj" by simp
  with j r show ?thesis by simp
qed

lemma succ_model_run:
  "generate fresh_cache succ_model [[0, 1]] 4 = Inr [[0, 1, 2, 0]]"
  by (simp add: generate_def py_index_def fresh_cache_def succ_model_def forward_def shape1_def
      generated_token_of_def argmax_def succ_logits_def numeral_nat)

lemma py_index_minus1: "xs \<noteq> [] \<Longrightarrow> py_index xs (- 1) = Inr (last xs)"
  by (cases xs rule: rev_cases) (simp_all add: py_index_def nth_append)

lemma succ_model_answers: "answers_every_call succ_model"
proof -
  have "\<exists>tok. generated_token_of [map succ_logits ids] = Inr tok" if "ids \<noteq> []" for ids
    using that
    by (simp add: generated_token_of_def py_index_0_Cons py_index_minus1 last_map argmax_def
        succ_logits_def)
  then show ?thesis
    by (simp add: answers_every_call_def succ_model_def)
qed

text \<open>
  C5. For a target length that is at least the prompt length, the sequence generate returns
  is one row of exactly the target length; the loop state after \<open>j\<close> steps holds exactly
  \<open>j\<close> tokens more than the prompt; and generate does return for a model that answers
  every call, on a non-empty prompt.
\<close>

theorem generate_length:
  assumes "int (length p) \<le> response_len"
  shows "(\<forall>out. generate fmc model (p # rest) response_len = Inr out \<longrightarrow>
            (\<exists>ids. out = [ids] \<and> int (length ids) = response_len))
       \<and> (\<forall>j ids kv. generate_loop model j p (fmc (config model)) = Inr (ids, kv) \<longrightarrow>
            length ids = length p + j)
       \<and> (answers_every_call model \<and> p \<noteq> [] \<longrightarrow>
            (\<exists>out. generate fmc model (p # rest) response_len = Inr out))"
proof (intro conjI allI impI)
  fix out assume "generate fmc model (p # rest) response_len = Inr out"
  from generate_Inr_loop [OF this] obtain ids kv where
    l: "generate_loop model (nat (response_len - int (length p))) p (fmc (config model)) = Inr (ids, kv)"
    and o: "out = [ids]" by blast
  from generate_loop_append [OF l] obtain ext where
    e: "ids = p @ ext" "length ext = nat (response_len - int (length p))" by blast
  from e assms have "int (length ids) = response_len" by simp
  with o show "\<exists>ids. out = [ids] \<and> int (length ids) = response_len" by simp
next
  fix j ids kv assume "generate_loop model j p (fmc (config model)) = Inr (ids, kv)"
  from generate_loop_append [OF this] obtain ext where "ids = p @ ext" "length ext = j" by blast
  then show "length ids = length p + j" by simp
next
  assume a: "answers_every_call model \<and> p \<noteq> []"
  then have m: "answers_every_call model" and ne: "p \<noteq> []" by simp_all
  from generate_loop_returns [OF m ne, of "nat (response_len - int (length p))" "fmc (config model)"]
  obtain ids kv where
    l: "generate_loop model (nat (response_len - int (length p))) p (fmc (config model)) = Inr (ids, kv)"
    by blast
  have "generate fmc model (p # rest) response_len = Inr [ids]"
    unfolding generate_def py_index_0_Cons by (simp add: l)
  then show "\<exists>out. generate fmc model (p # rest) response_len = Inr out" ..
qed

theorem generate_length_witness:
  "int (length [0, 1 :: int]) \<le> 4
 \<and> generate fresh_cache succ_model [[0, 1]] 4 = Inr [[0, 1, 2, 0]]
 \<and> int (length [0, 1, 2, 0 :: int]) = 4
 \<and> answers_every_call succ_model
 \<and> (\<exists>out. generate fresh_cache succ_model [[0, 1]] 4 = Inr out)"
  using generate_length [of "[0, 1]" 4 fresh_cache succ_model "[]"]
    succ_model_run succ_model_answers
  by simp

text \<open>
  C8. generate reads the first prompt row only: the further rows of the batch do not change
  its result, and every tensor it returns has batch size 1.
\<close>

theorem generate_first_row_only:
  "generate fmc model (p # rest) response_len = generate fmc model [p] response_len
 \<and> (\<forall>out. generate fmc model prompts response_len = Inr out \<longrightarrow> length out = 1)"
proof (intro conjI allI impI)
  show "generate fmc model (p # rest) response_len = generate fmc model [p] response_len"
    by (simp add: generate_def py_index_0_Cons)
next
  fix out assume "generate fmc model prompts response_len = Inr out"
  then have "\<exists>ids. out = [ids]"
    by (auto simp: generate_def split: sum.splits prod.splits)
  then obtain ids where "out = [ids]" ..
  then show "length out = 1" by simp
qed

theorem generate_first_row_only_witness:
  "generate fresh_cache succ_model [[0, 1], [9, 9]] 4 = generate fresh_cache succ_model [[0, 1]] 4
 \<and> generate fresh_cache succ_model [[0, 1], [9, 9]] 4 = Inr [[0, 1, 2, 0]]
 \<and> length [[0, 1, 2, 0 :: int]] = 1"
  using generate_first_row_only [of fresh_cache succ_model "[0, 1]" "[[9, 9]]" 4]
    succ_model_run
  by simp

text \<open>
  C9. The prompt is a prefix of the generated row, and the loop only appends: the loop state
  after any \<open>j\<close> of its steps is the prefix of length \<open>len(prompt) + j\<close> of the final
  row, so no later step changes a token once it is appended.
\<close>

theorem generate_preserves_prompt:
  assumes "generate fmc model (p # rest) response_len = Inr out"
    and "j \<le> nat (response_len - int (length p))"
  shows "\<exists>ids kvj. out = [ids] \<and> take (length p) ids = p
           \<and> generate_loop model j p (fmc (config model)) = Inr (take (length p + j) ids, kvj)"
proof -
  from generate_Inr_loop [OF assms(1)] obtain ids kv where
    l: "generate_loop model (nat (response_len - int (length p))) p (fmc (config model)) = Inr (ids, kv)"
    and o: "out = [ids]" by blast
  from generate_loop_append [OF l] have "take (length p) ids = p" by auto
  moreover from generate_loop_upto [OF l assms(2)] obtain kvj where
    "generate_loop model j p (fmc (config model)) = Inr (take (length p + j) ids, kvj)" by blast
  ultimately show ?thesis using o by blast
qed

theorem generate_preserves_prompt_witness:
  "generate fresh_cache succ_model [[0, 1]] 4 = Inr [[0, 1, 2, 0]]
 \<and> (1::nat) \<le> nat (4 - int (length [0, 1 :: int]))
 \<and> (\<exists>ids kvj. [[0, 1, 2, 0]] = [ids] \<and> take (length [0, 1 :: int]) ids = [0, 1]
       \<and> generate_loop succ_model 1 [0, 1] (fresh_cache (config succ_model))
           = Inr (take (length [0, 1 :: int] + 1) ids, kvj))"
proof -
  have le: "(1::nat) \<le> nat (4 - int (length [0, 1 :: int]))" by simp
  from generate_preserves_prompt [OF succ_model_run le] succ_model_run le
  show ?thesis by blast
qed

text \<open>
  C3. For a target length beyond the prompt length, step \<open>j\<close> of the loop calls the model on
  the whole current sequence (the first \<open>len(prompt) + j\<close> tokens of the final row) with
  the positions \<open>0..len-1\<close> and the cache of the previous step; the token it appends is
  the index of the first maximum of the last position's logit vector of batch entry 0; the
  cache at step 0 is the one built from the model's configuration, and the cache after the
  step is the one the model returned.
\<close>

theorem generate_step_greedy:
  assumes "generate fmc model (p # rest) response_len = Inr out"
    and "j < nat (response_len - int (length p))"
  shows "\<exists>ids kv lg kv' row tok.
           out = [ids]
         \<and> generate_loop model 0 p (fmc (config model)) = Inr (p, fmc (config model))
         \<and> generate_loop model j p (fmc (config model)) = Inr (take (length p + j) ids, kv)
         \<and> model_forward model [take (length p + j) ids] [0..<length p + j] kv = Inr (lg, kv')
         \<and> lg \<noteq> [] \<and> hd lg \<noteq> [] \<and> row = last (hd lg)
         \<and> 0 \<le> tok \<and> nat tok < length row
         \<and> (\<forall>v\<in>set row. v \<le> row ! nat tok)
         \<and> (\<forall>k<nat tok. row ! k < row ! nat tok)
         \<and> ids ! (length p + j) = tok
         \<and> generate_loop model (Suc j) p (fmc (config model))
             = Inr (take (length p + j) ids @ [tok], kv')"
proof -
  let ?n = "nat (response_len - int (length p))"
  let ?kv0 = "fmc (config model)"
  from generate_Inr_loop [OF assms(1)] obtain ids kvn where
    l: "generate_loop model ?n p ?kv0 = Inr (ids, kvn)" and o: "out = [ids]" by blast
  from assms(2) have j: "j \<le> ?n" and sj: "Suc j \<le> ?n" by simp_all
  from generate_loop_upto [OF l j] obtain kv where
    lj: "generate_loop model j p ?kv0 = Inr (take (length p + j) ids, kv)" by blast
  from generate_loop_upto [OF l sj] obtain kv' where
    lsj: "generate_loop model (Suc j) p ?kv0 = Inr (take (length p + Suc j) ids, kv')" by blast
  let ?cur = "take (length p + j) ids"
  from generate_loop_append [OF l] have len: "length ids = length p + ?n" by auto
  with assms(2) have lcur: "length ?cur = length p + j" by simp
  have one: "generate_loop model (Suc 0) ?cur kv = Inr (take (length p + Suc j) ids, kv')"
    using lsj unfolding generate_loop_snoc [of model j p ?kv0] lj
    by (simp del: generate_loop.simps)
  then obtain lg tok where
    f: "model_forward model [?cur] [0..<length p + j] kv = Inr (lg, kv')"
    and g: "generated_token_of lg = Inr tok"
    and t: "take (length p + Suc j) ids = ?cur @ [tok]"
    using lcur by (auto simp: forward_def shape1_def split: sum.splits)
  from len assms(2) have "length p + j < length ids" by simp
  then have "take (length p + Suc j) ids = ?cur @ [ids ! (length p + j)]"
    by (simp add: take_Suc_conv_app_nth)
  with t have tok: "ids ! (length p + j) = tok" by simp
  from generated_token_of_Inr [OF g] have ne: "lg \<noteq> []" "hd lg \<noteq> []"
    and a: "argmax (last (hd lg)) = Inr tok" by simp_all
  note am = argmax_Inr [OF a]
  from lsj t have lsj': "generate_loop model (Suc j) p ?kv0 = Inr (?cur @ [tok], kv')" by simp
  have z: "generate_loop model 0 p ?kv0 = Inr (p, ?kv0)" by simp
  show ?thesis
    apply (rule exI [of _ ids], rule exI [of _ kv], rule exI [of _ lg], rule exI [of _ kv'])
    apply (rule exI [of _ "last (hd lg)"], rule exI [of _ tok])
    using o lj f ne am tok lsj' by simp
qed

theorem generate_step_greedy_witness:
  "generate fresh_cache succ_model [[0, 1]] 4 = Inr [[0, 1, 2, 0]]
 \<and> (1::nat) < nat (4 - int (length [0, 1 :: int]))
 \<and> (\<exists>ids kv lg kv' row tok.
           [[0, 1, 2, 0]] = [ids]
         \<and> generate_loop succ_model 0 [0, 1] (fresh_cache (config succ_model))
             = Inr ([0, 1], fresh_cache (config succ_model))
         \<and> generate_loop succ_model 1 [0, 1] (fresh_cache (config succ_model))
             = Inr (take (length [0, 1 :: int] + 1) ids, kv)
         \<and> model_forward succ_model [take (length [0, 1 :: int] + 1) ids]
               [0..<length [0, 1 :: int] + 1] kv = Inr (lg, kv')
         \<and> lg \<noteq> [] \<and> hd lg \<noteq> [] \<and> row = last (hd lg)
         \<and> 0 \<le> tok \<and> nat tok < length row
         \<and> (\<forall>v\<in>set row. v \<le> row ! nat tok)
         \<and> (\<forall>k<nat tok. row ! k < row ! nat tok)
         \<and> ids ! (length [0, 1 :: int] + 1) = tok
         \<and> generate_loop succ_model (Suc 1) [0, 1] (fresh_cache (config succ_model))
             = Inr (take (length [0, 1 :: int] + 1) ids @ [tok], kv'))"
proof -
  have lt: "(1::nat) < nat (4 - int (length [0, 1 :: int]))" by simp
  from generate_step_greedy [OF succ_model_run lt] succ_model_run lt
  show ?thesis by blast
qed

section \<open>Properties of the single-step comparator\<close>

lemma verify_with_input_ids_result:
  "fst (verify_with_input_ids ta fmc om rm input_ids K atol) = Inr b \<longleftrightarrow>
     (\<exists>toks lgo lo lgr kv' lr.
          padded_tokens input_ids K = Inr toks
        \<and> orig_forward om toks = Inr lgo
        \<and> logits_at lgo (int (shape1 input_ids) - 1) = Inr lo
        \<and> forward rm toks (fmc (config rm)) = Inr (lgr, kv')
        \<and> logits_at lgr (int (shape1 input_ids) - 1) = Inr lr
        \<and> allclose ta (orig_dtype om) lo (logits_dtype rm) lr atol = Inr b)"
  by (auto simp: verify_with_input_ids_def Let_def split: sum.splits prod.splits)

lemma isclose_mono:
  assumes "isclose ar rtol a x y" and "a \<le> b"
  shows "isclose ar rtol b x y"
proof -
  have "scalar_add_monotone (Rep_arithmetic ar)"
    using Rep_arithmetic [of ar] by simp
  then have m: "\<And>e c. f_le (Rep_arithmetic ar) e (f_radd (Rep_arithmetic ar) a c)
      \<Longrightarrow> f_le (Rep_arithmetic ar) e (f_radd (Rep_arithmetic ar) b c)"
    using assms(2) unfolding scalar_add_monotone_def by blast
  from assms(1) show ?thesis
    unfolding isclose_def Let_def using m by blast
qed

lemma allclose_mono:
  assumes "allclose ta dx xs dy ys a = Inr True" and "a \<le> b"
  shows "allclose ta dx xs dy ys b = Inr True"
proof -
  from assms(1) have d: "dx = dy" and a0: "\<not> a < 0"
    by (auto simp: allclose_def split: if_splits)
  with assms(2) have b0: "\<not> b < 0" by simp
  have m: "\<And>ar x y. isclose ar default_rtol a x y \<Longrightarrow> isclose ar default_rtol b x y"
    using assms(2) by (rule isclose_mono [rotated])
  have m2: "\<And>ar us vs. list_all2 (isclose ar default_rtol a) us vs
      \<Longrightarrow> list_all2 (isclose ar default_rtol b) us vs"
    by (erule list_all2_mono) (rule m)
  show ?thesis
    using assms(1) d a0 b0
    by (auto simp: allclose_def list_all_iff split: if_splits intro: m m2)
qed

lemma allclose_same_length:
  assumes "length lo = length lr" and "0 \<le> atol"
  shows "allclose ta d lo d lr atol
       = Inr (\<forall>i<length lo.
                f_eq (Rep_arithmetic (ta d)) (lo ! i) (lr ! i)
              \<or> f_isfinite (Rep_arithmetic (ta d))
                    (f_abs (Rep_arithmetic (ta d)) (f_sub (Rep_arithmetic (ta d)) (lo ! i) (lr ! i)))
                \<and> f_le (Rep_arithmetic (ta d))
                    (f_abs (Rep_arithmetic (ta d)) (f_sub (Rep_arithmetic (ta d)) (lo ! i) (lr ! i)))
                    (f_radd (Rep_arithmetic (ta d)) atol
                       (f_abs (Rep_arithmetic (ta d))
                          (f_rmul (Rep_arithmetic (ta d)) (1 / 100000) (lr ! i)))))"
  using assms
  by (simp add: allclose_def isclose_def default_rtol_def list_all2_conv_all_nth Let_def)

lemma allclose_refusals:
  "(dx \<noteq> dy \<or> atol < 0 \<longrightarrow> allclose ta dx lo dy lr atol = Inl RuntimeError)"
  by (simp add: allclose_def)

lemma isclose_exact:
  "0 \<le> atol \<Longrightarrow> isclose (exact d) rtol atol x y \<longleftrightarrow> \<bar>x - y\<bar> \<le> atol + \<bar>rtol * y\<bar>"
  by (auto simp: isclose_def exact_def exact_arithmetic.rep_eq Let_def)

lemma padded_tokens_4: "padded_tokens [[1, 2, 3, 4]] 4 = Inr [[1, 2, 3, 4]]"
  by (simp add: padded_tokens_def torch_full_row_def assign_row_prefix_def shape1_def)

lemma big_run:
  "fst (verify_with_input_ids exact fresh_cache (stub_original [1000000] [])
         (const_reauthored [1000001]) [[1, 2, 3, 4]] 4 (1 / 2)) = Inr True"
  by (simp add: verify_with_input_ids_def padded_tokens_4 stub_original_def const_reauthored_def
      forward_def shape1_def logits_at_def py_index_def allclose_def isclose_exact default_rtol_def
      fresh_cache_def)

text \<open>
  C1. verify_with_input_ids returns a boolean exactly when the padded buffer can be built,
  both models answer, both logit vectors can be read at index input-length minus 1 and
  torch.allclose accepts them; the boolean is then the one of torch.allclose, called with
  the supplied \<open>atol\<close> and its default \<open>rtol = 1e-05\<close>. For two vectors of one dtype and one
  length and a tolerance that is not negative it is true if and only if every pair of
  elements is equal or has a finite \<open>\<bar>original - reauthored\<bar>\<close> that is at most
  \<open>atol + \<bar>1e-05 * reauthored\<bar>\<close>, every operation being the one of the dtype's arithmetic.
  Two different dtypes and a negative tolerance are refused.
\<close>

theorem verify_with_input_ids_tolerance:
  "(fst (verify_with_input_ids ta fmc om rm input_ids K atol) = Inr b \<longleftrightarrow>
     (\<exists>toks lgo lo lgr kv' lr.
          padded_tokens input_ids K = Inr toks
        \<and> orig_forward om toks = Inr lgo
        \<and> logits_at lgo (int (shape1 input_ids) - 1) = Inr lo
        \<and> forward rm toks (fmc (config rm)) = Inr (lgr, kv')
        \<and> logits_at lgr (int (shape1 input_ids) - 1) = Inr lr
        \<and> allclose ta (orig_dtype om) lo (logits_dtype rm) lr atol = Inr b))
 \<and> (\<forall>d lo lr. length lo = length lr \<and> 0 \<le> atol \<longrightarrow>
        allclose ta d lo d lr atol
          = Inr (\<forall>i<length lo.
                f_eq (Rep_arithmetic (ta d)) (lo ! i) (lr ! i)
              \<or> f_isfinite (Rep_arithmetic (ta d))
                    (f_abs (Rep_arithmetic (ta d)) (f_sub (Rep_arithmetic (ta d)) (lo ! i) (lr ! i)))
                \<and> f_le (Rep_arithmetic (ta d))
                    (f_abs (Rep_arithmetic (ta d)) (f_sub (Rep_arithmetic (ta d)) (lo ! i) (lr ! i)))
                    (f_radd (Rep_arithmetic (ta d)) atol
                       (f_abs (Rep_arithmetic (ta d))
                          (f_rmul (Rep_arithmetic (ta d)) (1 / 100000) (lr ! i))))))
 \<and> (\<forall>dx dy lo lr. dx \<noteq> dy \<or> atol < 0 \<longrightarrow> allclose ta dx lo dy lr atol = Inl RuntimeError)"
proof (intro conjI)
  show "fst (verify_with_input_ids ta fmc om rm input_ids K atol) = Inr b \<longleftrightarrow>
     (\<exists>toks lgo lo lgr kv' lr.
          padded_tokens input_ids K = Inr toks
        \<and> orig_forward om toks = Inr lgo
        \<and> logits_at lgo (int (shape1 input_ids) - 1) = Inr lo
        \<and> forward rm toks (fmc (config rm)) = Inr (lgr, kv')
        \<and> logits_at lgr (int (shape1 input_ids) - 1) = Inr lr
        \<and> allclose ta (orig_dtype om) lo (logits_dtype rm) lr atol = Inr b)"
    by (rule verify_with_input_ids_result)
next
  show "\<forall>d lo lr. length lo = length lr \<and> 0 \<le> atol \<longrightarrow>
        allclose ta d lo d lr atol
          = Inr (\<forall>i<length lo.
                f_eq (Rep_arithmetic (ta d)) (lo ! i) (lr ! i)
              \<or> f_isfinite (Rep_arithmetic (ta d))
                    (f_abs (Rep_arithmetic (ta d)) (f_sub (Rep_arithmetic (ta d)) (lo ! i) (lr ! i)))
                \<and> f_le (Rep_arithmetic (ta d))
                    (f_abs (Rep_arithmetic (ta d)) (f_sub (Rep_arithmetic (ta d)) (lo ! i) (lr ! i)))
                    (f_radd (Rep_arithmetic (ta d)) atol
                       (f_abs (Rep_arithmetic (ta d))
                          (f_rmul (Rep_arithmetic (ta d)) (1 / 100000) (lr ! i)))))"
    using allclose_same_length [of _ _ atol ta] by blast
next
  show "\<forall>dx dy lo lr. dx \<noteq> dy \<or> atol < 0 \<longrightarrow> allclose ta dx lo dy lr atol = Inl RuntimeError"
    using allclose_refusals [of _ _ atol ta] by blast
qed

theorem verify_with_input_ids_tolerance_witness:
  "fst (verify_with_input_ids exact fresh_cache (stub_original [1000000] [])
         (const_reauthored [1000001]) [[1, 2, 3, 4]] 4 (1 / 2)) = Inr True
 \<and> (\<exists>toks lgo lo lgr kv' lr.
          padded_tokens [[1, 2, 3, 4]] 4 = Inr toks
        \<and> orig_forward (stub_original [1000000] []) toks = Inr lgo
        \<and> logits_at lgo (int (shape1 [[1, 2, 3, 4 :: int]]) - 1) = Inr lo
        \<and> forward (const_reauthored [1000001]) toks (fresh_cache (config (const_reauthored [1000001])))
            = Inr (lgr, kv')
        \<and> logits_at lgr (int (shape1 [[1, 2, 3, 4 :: int]]) - 1) = Inr lr
        \<and> allclose exact (orig_dtype (stub_original [1000000] [])) lo
             (logits_dtype (const_reauthored [1000001])) lr (1 / 2) = Inr True)
 \<and> allclose exact Float32 [1000000] Float32 [1000001] (1 / 2)
     = Inr (\<bar>1000000 - 1000001 :: real\<bar> \<le> 1 / 2 + \<bar>1 / 100000 * 1000001\<bar>)
 \<and> allclose exact Float32 [1000000] Float64 [1000001] (1 / 2) = Inl RuntimeError"
proof -
  note t = verify_with_input_ids_tolerance [of exact fresh_cache "stub_original [1000000] []"
      "const_reauthored [1000001]" "[[1, 2, 3, 4]]" 4 "1 / 2" True]
  from t have a: "\<exists>toks lgo lo lgr kv' lr.
          padded_tokens [[1, 2, 3, 4]] 4 = Inr toks
        \<and> orig_forward (stub_original [1000000] []) toks = Inr lgo
        \<and> logits_at lgo (int (shape1 [[1, 2, 3, 4 :: int]]) - 1) = Inr lo
        \<and> forward (const_reauthored [1000001]) toks (fresh_cache (config (const_reauthored [1000001])))
            = Inr (lgr, kv')
        \<and> logits_at lgr (int (shape1 [[1, 2, 3, 4 :: int]]) - 1) = Inr lr
        \<and> allclose exact (orig_dtype (stub_original [1000000] [])) lo
             (logits_dtype (const_reauthored [1000001])) lr (1 / 2) = Inr True"
    using big_run by blast
  from t have "length [1000000 :: real] = length [1000001 :: real] \<and> (0::real) \<le> 1 / 2 \<longrightarrow>
      allclose exact Float32 [1000000] Float32 [1000001] (1 / 2)
        = Inr (\<forall>i<length [1000000 :: real].
                f_eq (Rep_arithmetic (exact Float32)) ([1000000] ! i) ([1000001] ! i)
              \<or> f_isfinite (Rep_arithmetic (exact Float32))
                    (f_abs (Rep_arithmetic (exact Float32))
                       (f_sub (Rep_arithmetic (exact Float32)) ([1000000] ! i) ([1000001] ! i)))
                \<and> f_le (Rep_arithmetic (exact Float32))
                    (f_abs (Rep_arithmetic (exact Float32))
                       (f_sub (Rep_arithmetic (exact Float32)) ([1000000] ! i) ([1000001] ! i)))
                    (f_radd (Rep_arithmetic (exact Float32)) (1 / 2)
                       (f_abs (Rep_arithmetic (exact Float32))
                          (f_rmul (Rep_arithmetic (exact Float32)) (1 / 100000) ([1000001] ! i)))))"
    by blast
  then have b: "allclose exact Float32 [1000000] Float32 [1000001] (1 / 2)
      = Inr (\<bar>1000000 - 1000001 :: real\<bar> \<le> 1 / 2 + \<bar>1 / 100000 * 1000001\<bar>)"
    by (simp add: exact_def exact_arithmetic.rep_eq)
  from t have "Float32 \<noteq> Float64 \<or> (1 / 2 :: real) < 0 \<longrightarrow>
      allclose exact Float32 [1000000] Float64 [1000001] (1 / 2) = Inl RuntimeError"
    by blast
  then have c: "allclose exact Float32 [1000000] Float64 [1000001] (1 / 2) = Inl RuntimeError"
    by simp
  from a b c big_run show ?thesis by blast
qed

text \<open>
  The relative term matters: with the logits 1000000 and 1000001 and \<open>atol = 1/2\<close> the
  comparator returns true although the absolute difference 1 exceeds the tolerance. The
  three numbers are float32 values and the margin is wide: in float32 the difference is
  exactly 1 and the allowed error is about 10.5.
\<close>

theorem verify_with_input_ids_atol_only_counterexample:
  "fst (verify_with_input_ids exact fresh_cache (stub_original [1000000] [])
         (const_reauthored [1000001]) [[1, 2, 3, 4]] 4 (1 / 2)) = Inr True
 \<and> padded_tokens [[1, 2, 3, 4]] 4 = Inr [[1, 2, 3, 4]]
 \<and> orig_forward (stub_original [1000000] []) [[1, 2, 3, 4]]
     = Inr [[[1000000], [1000000], [1000000], [1000000]]]
 \<and> logits_at [[[1000000], [1000000], [1000000], [1000000 :: real]]]
       (int (shape1 [[1, 2, 3, 4 :: int]]) - 1)
     = Inr [1000000]
 \<and> forward (const_reauthored [1000001]) [[1, 2, 3, 4]] (fresh_cache ())
     = Inr ([[[1000001], [1000001], [1000001], [1000001]]], 1)
 \<and> logits_at [[[1000001], [1000001], [1000001], [1000001 :: real]]]
       (int (shape1 [[1, 2, 3, 4 :: int]]) - 1)
     = Inr [1000001]
 \<and> \<not> spec_within_atol [1000000] [1000001] (1 / 2)"
  using big_run padded_tokens_4
  by (simp add: stub_original_def const_reauthored_def forward_def shape1_def logits_at_def
      py_index_def fresh_cache_def spec_within_atol_def)

text \<open>
  C6. The comparator is monotone in the tolerance: if verify_with_input_ids returns true
  with tolerance \<open>a\<close>, it returns true with every tolerance \<open>b \<ge> a\<close>, for the same models and
  input ids.
\<close>

theorem verify_with_input_ids_monotone:
  assumes "fst (verify_with_input_ids ta fmc om rm input_ids K a) = Inr True" and "a \<le> b"
  shows "fst (verify_with_input_ids ta fmc om rm input_ids K b) = Inr True"
proof -
  from assms(1) obtain toks lgo lo lgr kv' lr where
    i: "padded_tokens input_ids K = Inr toks" "orig_forward om toks = Inr lgo"
       "logits_at lgo (int (shape1 input_ids) - 1) = Inr lo"
       "forward rm toks (fmc (config rm)) = Inr (lgr, kv')"
       "logits_at lgr (int (shape1 input_ids) - 1) = Inr lr"
    and c: "allclose ta (orig_dtype om) lo (logits_dtype rm) lr a = Inr True"
    unfolding verify_with_input_ids_result by blast
  from allclose_mono [OF c assms(2)] i show ?thesis
    unfolding verify_with_input_ids_result by blast
qed

lemma small_run:
  "fst (verify_with_input_ids exact fresh_cache (stub_original [1, 0, 0] [])
         (const_reauthored [1, 0, 1 / 4]) [[1, 2, 3, 4]] 4 (1 / 2)) = Inr True"
  by (simp add: verify_with_input_ids_def padded_tokens_4 stub_original_def const_reauthored_def
      forward_def shape1_def logits_at_def py_index_def allclose_def isclose_exact default_rtol_def
      fresh_cache_def)

theorem verify_with_input_ids_monotone_witness:
  "fst (verify_with_input_ids exact fresh_cache (stub_original [1, 0, 0] [])
         (const_reauthored [1, 0, 1 / 4]) [[1, 2, 3, 4]] 4 (1 / 2)) = Inr True
 \<and> (1 / 2 :: real) \<le> 3
 \<and> fst (verify_with_input_ids exact fresh_cache (stub_original [1, 0, 0] [])
         (const_reauthored [1, 0, 1 / 4]) [[1, 2, 3, 4]] 4 3) = Inr True"
proof -
  have le: "(1 / 2 :: real) \<le> 3" by simp
  from verify_with_input_ids_monotone [OF small_run le] small_run le show ?thesis by blast
qed

lemma padded_tokens_in_range:
  assumes "1 \<le> length ids" and "int (length ids) \<le> K"
  shows "padded_tokens [ids] K = Inr [ids @ replicate (nat K - length ids) 0]"
proof -
  from assms have "length ids \<le> nat K" and "\<not> K < 0" by linarith+
  then show ?thesis
    by (simp add: padded_tokens_def torch_full_row_def assign_row_prefix_def shape1_def Let_def)
qed

lemma padded_tokens_too_long:
  assumes "K < int (length ids)" and "\<not> (length ids = 1 \<and> K = 0)"
  shows "padded_tokens [ids] K = Inl RuntimeError"
  using assms
  by (auto simp: padded_tokens_def torch_full_row_def assign_row_prefix_def shape1_def min_def
      Let_def)

text \<open>
  C10. For one row of input ids of length \<open>L\<close> and a buffer width \<open>K\<close>: when
  \<open>1 \<le> L \<le> K\<close> the write succeeds, the buffer holds the ids followed by zeros and has
  width \<open>K\<close>, and the index \<open>L - 1\<close> lies inside every logits tensor whose first batch
  entry has \<open>K\<close> positions. When \<open>L > K\<close>, other than for \<open>L = 1\<close> and \<open>K = 0\<close>, building the
  buffer raises and verify_with_input_ids raises with it instead of returning a boolean.
\<close>

theorem verify_with_input_ids_buffer_bounds:
  "(1 \<le> length ids \<and> int (length ids) \<le> K \<longrightarrow>
        padded_tokens [ids] K = Inr [ids @ replicate (nat K - length ids) 0]
      \<and> length (ids @ replicate (nat K - length ids) 0) = nat K
      \<and> 0 \<le> int (shape1 [ids]) - 1 \<and> int (shape1 [ids]) - 1 < K
      \<and> (\<forall>(b0 :: 'f list list) rest. length b0 = nat K \<longrightarrow>
            logits_at (b0 # rest) (int (shape1 [ids]) - 1) = Inr (b0 ! (length ids - 1))))
 \<and> (K < int (length ids) \<and> \<not> (length ids = 1 \<and> K = 0) \<longrightarrow>
        padded_tokens [ids] K = Inl RuntimeError
      \<and> fst (verify_with_input_ids ta fmc (om :: 'f original_model) rm [ids] K atol)
          = Inl RuntimeError)"
proof (intro conjI impI allI)
  assume a: "1 \<le> length ids \<and> int (length ids) \<le> K"
  then show "padded_tokens [ids] K = Inr [ids @ replicate (nat K - length ids) 0]"
    by (simp add: padded_tokens_in_range)
  from a show "length (ids @ replicate (nat K - length ids) 0) = nat K" by auto
  from a show "0 \<le> int (shape1 [ids]) - 1" by (cases ids) (simp_all add: shape1_def)
  from a show "int (shape1 [ids]) - 1 < K" by (simp add: shape1_def)
  fix b0 :: "'f list list" and rest assume "length b0 = nat K"
  with a have "0 \<le> int (length ids) - 1" and "int (length ids) - 1 < int (length b0)"
    and "nat (int (length ids) - 1) = length ids - 1"
    by linarith+
  then show "logits_at (b0 # rest) (int (shape1 [ids]) - 1) = Inr (b0 ! (length ids - 1))"
    by (simp add: logits_at_def py_index_def shape1_def)
next
  assume b: "K < int (length ids) \<and> \<not> (length ids = 1 \<and> K = 0)"
  then show p: "padded_tokens [ids] K = Inl RuntimeError"
    by (simp add: padded_tokens_too_long)
  show "fst (verify_with_input_ids ta fmc om rm [ids] K atol) = Inl RuntimeError"
    by (simp add: verify_with_input_ids_def p)
qed

theorem verify_with_input_ids_buffer_bounds_witness:
  "1 \<le> length [1, 2, 3, 4 :: int] \<and> int (length [1, 2, 3, 4 :: int]) \<le> 6
 \<and> padded_tokens [[1, 2, 3, 4]] 6 = Inr [[1, 2, 3, 4, 0, 0]]
 \<and> logits_at [[[1], [2], [3], [4], [5], [6 :: real]]] (int (shape1 [[1, 2, 3, 4 :: int]]) - 1)
     = Inr [4]
 \<and> 2 < int (length [1, 2, 3, 4 :: int])
 \<and> padded_tokens [[1, 2, 3, 4]] 2 = Inl RuntimeError
 \<and> fst (verify_with_input_ids exact fresh_cache (stub_original [1] []) (const_reauthored [1])
          [[1, 2, 3, 4]] 2 (1 / 2)) = Inl RuntimeError"
proof -
  note a = verify_with_input_ids_buffer_bounds [of "[1, 2, 3, 4]" 6 exact fresh_cache
      "stub_original [1] []" "const_reauthored [1]" "1 / 2"]
  note b = verify_with_input_ids_buffer_bounds [of "[1, 2, 3, 4]" 2 exact fresh_cache
      "stub_original [1] []" "const_reauthored [1]" "1 / 2"]
  from a have a1: "padded_tokens [[1, 2, 3, 4]] 6 = Inr [[1, 2, 3, 4, 0, 0]]"
    by (simp add: numeral_nat)
  from a have "\<forall>(b0 :: real list list) rest. length b0 = nat 6 \<longrightarrow>
      logits_at (b0 # rest) (int (shape1 [[1, 2, 3, 4 :: int]]) - 1)
        = Inr (b0 ! (length [1, 2, 3, 4 :: int] - 1))"
    by simp
  then have "length [[1], [2], [3], [4], [5], [6 :: real]] = nat 6 \<longrightarrow>
      logits_at ([[1], [2], [3], [4], [5], [6 :: real]] # [])
          (int (shape1 [[1, 2, 3, 4 :: int]]) - 1)
        = Inr ([[1], [2], [3], [4], [5], [6 :: real]] ! (length [1, 2, 3, 4 :: int] - 1))"
    by blast
  then have a2: "logits_at [[[1], [2], [3], [4], [5], [6 :: real]]]
        (int (shape1 [[1, 2, 3, 4 :: int]]) - 1)
      = Inr [4]"
    by simp
  from b have b1: "padded_tokens [[1, 2, 3, 4]] 2 = Inl RuntimeError
      \<and> fst (verify_with_input_ids exact fresh_cache (stub_original [1] []) (const_reauthored [1])
          [[1, 2, 3, 4]] 2 (1 / 2)) = Inl RuntimeError"
    by simp
  from a1 a2 b1 show ?thesis by simp
qed

text \<open>
  The excluded case: a single input id assigned into a buffer of width 0 is a value of one
  element expanded over an empty slice, which torch accepts. The assignment does not raise,
  and with models that answer the empty buffer with a logits tensor of one position the
  comparator returns a boolean.
\<close>

theorem verify_with_input_ids_one_token_empty_buffer_counterexample:
  "(0::int) < int (length [7 :: int])
 \<and> padded_tokens [[7]] 0 = Inr [[]]
 \<and> fst (verify_with_input_ids exact fresh_cache (fixed_original [[[1]]]) (fixed_reauthored [[[1]]])
          [[7]] 0 (1 / 2)) = Inr True"
  by (simp add: verify_with_input_ids_def padded_tokens_def torch_full_row_def
      assign_row_prefix_def shape1_def fixed_original_def fixed_reauthored_def forward_def
      logits_at_def py_index_def allclose_def isclose_exact default_rtol_def fresh_cache_def)

section \<open>Properties of the multi-step comparator\<close>

lemma generate_row_length:
  assumes "generate fmc model (p # rest) n = Inr out"
  shows "\<exists>ids. out = [ids] \<and> length ids = length p + nat (n - int (length p))"
proof -
  from generate_Inr_loop [OF assms] obtain ids kv where
    l: "generate_loop model (nat (n - int (length p))) p (fmc (config model)) = Inr (ids, kv)"
    and o: "out = [ids]" by blast
  from generate_loop_append [OF l] obtain ext where
    "ids = p @ ext" "length ext = nat (n - int (length p))" by blast
  with o show ?thesis by simp
qed

lemma generate_Inr_single:
  assumes "generate fmc model prompts n = Inr out"
  shows "\<exists>ids. out = [ids]"
  using assms by (auto simp: generate_def split: sum.splits prod.splits)

lemma verify_model_with_prompts_result:
  "fst (verify_model_with_prompts fmc om rm tk prompts) = Inr b \<longleftrightarrow>
     (\<exists>pt oo ro so ra sr.
          encode tk prompts = Inr pt
        \<and> orig_generate om pt = Inr oo
        \<and> py_index oo 0 = Inr ro
        \<and> decode tk ro = Inr so
        \<and> generate fmc rm pt (int (length ro)) = Inr [ra]
        \<and> decode tk ra = Inr sr
        \<and> b = (so = sr))"
proof
  assume "fst (verify_model_with_prompts fmc om rm tk prompts) = Inr b"
  then obtain pt oo ro so out ra sr where
    s: "encode tk prompts = Inr pt" "orig_generate om pt = Inr oo" "py_index oo 0 = Inr ro"
       "decode tk ro = Inr so" "decode tk ra = Inr sr" "b = (so = sr)"
    and g: "generate fmc rm pt (int (length ro)) = Inr out" and i: "py_index out 0 = Inr ra"
    by (auto simp: verify_model_with_prompts_def Let_def split: sum.splits)
  from generate_Inr_single [OF g] obtain ids where "out = [ids]" ..
  with i have "out = [ra]" by (simp add: py_index_0_Cons)
  with s g show "\<exists>pt oo ro so ra sr.
          encode tk prompts = Inr pt
        \<and> orig_generate om pt = Inr oo
        \<and> py_index oo 0 = Inr ro
        \<and> decode tk ro = Inr so
        \<and> generate fmc rm pt (int (length ro)) = Inr [ra]
        \<and> decode tk ra = Inr sr
        \<and> b = (so = sr)" by blast
next
  assume "\<exists>pt oo ro so ra sr.
          encode tk prompts = Inr pt
        \<and> orig_generate om pt = Inr oo
        \<and> py_index oo 0 = Inr ro
        \<and> decode tk ro = Inr so
        \<and> generate fmc rm pt (int (length ro)) = Inr [ra]
        \<and> decode tk ra = Inr sr
        \<and> b = (so = sr)"
  then show "fst (verify_model_with_prompts fmc om rm tk prompts) = Inr b"
    by (auto simp: verify_model_with_prompts_def Let_def py_index_0_Cons)
qed

text \<open>
  C2. verify_model_with_prompts returns a boolean exactly when the prompt is encoded, the
  original model generates, both rows are decoded and generate returns for the reauthored
  model, asked for the total length of the original model's row; the boolean is true if and
  only if the two decoded strings are equal. The original model's generation returns the
  prompt followed by its continuation, and then the reauthored row has exactly the total
  length of the original row (it does whenever the original row is at least as long as the
  encoded prompt).
\<close>

theorem verify_model_with_prompts_same_text:
  "(fst (verify_model_with_prompts fmc om rm tk prompts) = Inr b \<longleftrightarrow>
     (\<exists>pt oo ro so ra sr.
          encode tk prompts = Inr pt
        \<and> orig_generate om pt = Inr oo
        \<and> py_index oo 0 = Inr ro
        \<and> decode tk ro = Inr so
        \<and> generate fmc rm pt (int (length ro)) = Inr [ra]
        \<and> decode tk ra = Inr sr
        \<and> b = (so = sr)))
 \<and> (\<forall>p rest (ro :: int list) ra. length p \<le> length ro
        \<and> generate fmc rm (p # rest) (int (length ro)) = Inr [ra] \<longrightarrow> length ra = length ro)
 \<and> (\<forall>p rest cont orest.
          encode tk prompts = Inr (p # rest)
        \<and> orig_generate om (p # rest) = Inr ((p @ cont) # orest)
        \<and> fst (verify_model_with_prompts fmc om rm tk prompts) = Inr b \<longrightarrow>
          (\<exists>so ra sr.
               decode tk (p @ cont) = Inr so
             \<and> generate fmc rm (p # rest) (int (length (p @ cont))) = Inr [ra]
             \<and> length ra = length (p @ cont)
             \<and> decode tk ra = Inr sr
             \<and> b = (so = sr)))"
proof (intro conjI)
  show "fst (verify_model_with_prompts fmc om rm tk prompts) = Inr b \<longleftrightarrow>
     (\<exists>pt oo ro so ra sr.
          encode tk prompts = Inr pt
        \<and> orig_generate om pt = Inr oo
        \<and> py_index oo 0 = Inr ro
        \<and> decode tk ro = Inr so
        \<and> generate fmc rm pt (int (length ro)) = Inr [ra]
        \<and> decode tk ra = Inr sr
        \<and> b = (so = sr))"
    by (rule verify_model_with_prompts_result)
next
  have "length ra = length ro"
    if a: "length p \<le> length ro \<and> generate fmc rm (p # rest) (int (length ro)) = Inr [ra]"
    for p rest and ro ra :: "int list"
  proof -
    from a have g: "generate fmc rm (p # rest) (int (length ro)) = Inr [ra]" by simp
    from generate_row_length [OF g] a show ?thesis by auto
  qed
  then show "\<forall>p rest (ro :: int list) ra. length p \<le> length ro
        \<and> generate fmc rm (p # rest) (int (length ro)) = Inr [ra] \<longrightarrow> length ra = length ro"
    by blast
next
  have "\<exists>so ra sr.
               decode tk (p @ cont) = Inr so
             \<and> generate fmc rm (p # rest) (int (length (p @ cont))) = Inr [ra]
             \<and> length ra = length (p @ cont)
             \<and> decode tk ra = Inr sr
             \<and> b = (so = sr)"
    if a: "encode tk prompts = Inr (p # rest)
        \<and> orig_generate om (p # rest) = Inr ((p @ cont) # orest)
        \<and> fst (verify_model_with_prompts fmc om rm tk prompts) = Inr b"
    for p rest cont orest
  proof -
    from a obtain pt oo ro so ra sr where
      r: "encode tk prompts = Inr pt" "orig_generate om pt = Inr oo" "py_index oo 0 = Inr ro"
         "decode tk ro = Inr so" "generate fmc rm pt (int (length ro)) = Inr [ra]"
         "decode tk ra = Inr sr" "b = (so = sr)"
      unfolding verify_model_with_prompts_result by blast
    from a r have pt: "pt = p # rest" and oo: "oo = (p @ cont) # orest" by simp_all
    with r(3) have ro: "ro = p @ cont" by (simp add: py_index_0_Cons)
    from r(5) pt ro have g: "generate fmc rm (p # rest) (int (length (p @ cont))) = Inr [ra]"
      by simp
    from generate_row_length [OF g] have "length ra = length (p @ cont)" by simp
    with r(4,6,7) ro g show ?thesis by blast
  qed
  then show "\<forall>p rest cont orest.
          encode tk prompts = Inr (p # rest)
        \<and> orig_generate om (p # rest) = Inr ((p @ cont) # orest)
        \<and> fst (verify_model_with_prompts fmc om rm tk prompts) = Inr b \<longrightarrow>
          (\<exists>so ra sr.
               decode tk (p @ cont) = Inr so
             \<and> generate fmc rm (p # rest) (int (length (p @ cont))) = Inr [ra]
             \<and> length ra = length (p @ cont)
             \<and> decode tk ra = Inr sr
             \<and> b = (so = sr))"
    by blast
qed

lemma abc_run:
  "fst (verify_model_with_prompts fresh_cache (stub_original [1, 0, 0] [2, 0]) succ_model
         abc_tokenizer ''ab'') = Inr True"
  by (simp add: verify_model_with_prompts_def abc_tokenizer_def stub_original_def py_index_0_Cons
      succ_model_run)

theorem verify_model_with_prompts_same_text_witness:
  "encode abc_tokenizer ''ab'' = Inr [[0, 1]]
 \<and> orig_generate (stub_original [1, 0, 0] [2, 0]) [[0, 1]] = Inr [[0, 1] @ [2, 0]]
 \<and> fst (verify_model_with_prompts fresh_cache (stub_original [1, 0, 0] [2, 0]) succ_model
         abc_tokenizer ''ab'') = Inr True
 \<and> (\<exists>so ra sr.
        decode abc_tokenizer ([0, 1] @ [2, 0]) = Inr so
      \<and> generate fresh_cache succ_model [[0, 1]] (int (length ([0, 1] @ [2, 0 :: int]))) = Inr [ra]
      \<and> length ra = length ([0, 1] @ [2, 0 :: int])
      \<and> decode abc_tokenizer ra = Inr sr
      \<and> True = (so = sr))"
proof -
  note t = verify_model_with_prompts_same_text [of fresh_cache "stub_original [1, 0, 0] [2, 0]"
      succ_model abc_tokenizer "''ab''" True]
  have e: "encode abc_tokenizer ''ab'' = Inr ([0, 1] # [])"
    by (simp add: abc_tokenizer_def)
  have o: "orig_generate (stub_original [1, 0, 0] [2, 0]) ([0, 1] # []) = Inr (([0, 1] @ [2, 0]) # [])"
    by (simp add: stub_original_def)
  from t e o abc_run have "\<exists>so ra sr.
        decode abc_tokenizer ([0, 1] @ [2, 0]) = Inr so
      \<and> generate fresh_cache succ_model ([0, 1] # []) (int (length ([0, 1] @ [2, 0 :: int]))) = Inr [ra]
      \<and> length ra = length ([0, 1] @ [2, 0 :: int])
      \<and> decode abc_tokenizer ra = Inr sr
      \<and> True = (so = sr)"
    by blast
  with e o abc_run show ?thesis by simp
qed

section \<open>Properties of the orchestrator\<close>

text \<open>
  C7. Once both models are loaded and the single-step comparator has returned a boolean,
  the orchestrator prints PASS for true and FAILED for false and goes on to load the
  tokenizer, whichever it was; when the tokenizer loads and the multi-step comparator
  returns a boolean, the orchestrator prints PASS or FAILED for that as well and completes
  without raising. The lines printed are the ones below, in this order.
\<close>

theorem verify_reauthored_transformers_both_checks:
  assumes "model_from_pretrained h checkpoint kw = Inr om"
    and "locate_cached_dir h checkpoint = (Inr rc, located)"
    and "builder rc 1024 = Inr rm"
    and "verify_with_input_ids ta fmc om rm default_input_ids default_kv_cache_max_len atol
           = (Inr ok1, printed1)"
    and "tc = (case tokenizer_checkpoint of None \<Rightarrow> checkpoint | Some t \<Rightarrow> t)"
  shows "(\<exists>after.
            snd (verify_reauthored_transformers ta fmc h checkpoint builder prompts atol
                   tokenizer_checkpoint kw)
              = [[Str ''Loading checkpoint from'', Str checkpoint]] @ located
                @ [[Str ''Instantiating the reauthored model from'', Str rc],
                   [Str ''Verifying the reauthored model with an arbitrary input...'']]
                @ printed1
                @ [[Str (if ok1 then ''PASS'' else ''FAILED'')],
                   [Str ''Loading tokenizer from'', Str tc]]
                @ after)
       \<and> (\<forall>tk ok2 printed2.
              tokenizer_from_pretrained h tc kw = Inr tk
            \<and> verify_model_with_prompts fmc om rm tk prompts = (Inr ok2, printed2) \<longrightarrow>
              verify_reauthored_transformers ta fmc h checkpoint builder prompts atol
                     tokenizer_checkpoint kw
                = (Inr (),
                   [[Str ''Loading checkpoint from'', Str checkpoint]] @ located
                   @ [[Str ''Instantiating the reauthored model from'', Str rc],
                      [Str ''Verifying the reauthored model with an arbitrary input...'']]
                   @ printed1
                   @ [[Str (if ok1 then ''PASS'' else ''FAILED'')],
                      [Str ''Loading tokenizer from'', Str tc],
                      [Str ''Verifying the reauthored model with prompts:'', Str prompts]]
                   @ printed2
                   @ [[Str (if ok2 then ''PASS'' else ''FAILED'')]]))"
proof (intro conjI allI impI)
  let ?log = "\<lambda>after. [[Str ''Loading checkpoint from'', Str checkpoint]] @ located
                @ [[Str ''Instantiating the reauthored model from'', Str rc],
                   [Str ''Verifying the reauthored model with an arbitrary input...'']]
                @ printed1
                @ [[Str (if ok1 then ''PASS'' else ''FAILED'')],
                   [Str ''Loading tokenizer from'', Str tc]]
                @ after"
  let ?run = "verify_reauthored_transformers ta fmc h checkpoint builder prompts atol
                   tokenizer_checkpoint kw"
  show "\<exists>after. snd ?run = ?log after"
  proof (cases "tokenizer_from_pretrained h tc kw")
    case (Inl e)
    with assms have "snd ?run = ?log []"
      by (simp add: verify_reauthored_transformers_def verdict_def)
    then show ?thesis by (rule exI)
  next
    case (Inr tk)
    obtain r2 printed2 where v: "verify_model_with_prompts fmc om rm tk prompts = (r2, printed2)"
      by (cases "verify_model_with_prompts fmc om rm tk prompts")
    show ?thesis
    proof (cases r2)
      case (Inl e)
      with assms Inr v have "snd ?run
          = ?log ([[Str ''Verifying the reauthored model with prompts:'', Str prompts]] @ printed2)"
        by (simp add: verify_reauthored_transformers_def verdict_def)
      then show ?thesis by (rule exI)
    next
      case (Inr ok2)
      with assms \<open>tokenizer_from_pretrained h tc kw = Inr tk\<close> v
      have "snd ?run
          = ?log ([[Str ''Verifying the reauthored model with prompts:'', Str prompts]] @ printed2
                     @ [[Str (if ok2 then ''PASS'' else ''FAILED'')]])"
        by (simp add: verify_reauthored_transformers_def verdict_def)
      then show ?thesis by (rule exI)
    qed
  qed
next
  fix tk ok2 printed2
  assume a: "tokenizer_from_pretrained h tc kw = Inr tk
            \<and> verify_model_with_prompts fmc om rm tk prompts = (Inr ok2, printed2)"
  with assms show "verify_reauthored_transformers ta fmc h checkpoint builder prompts atol
                     tokenizer_checkpoint kw
                = (Inr (),
                   [[Str ''Loading checkpoint from'', Str checkpoint]] @ located
                   @ [[Str ''Instantiating the reauthored model from'', Str rc],
                      [Str ''Verifying the reauthored model with an arbitrary input...'']]
                   @ printed1
                   @ [[Str (if ok1 then ''PASS'' else ''FAILED'')],
                      [Str ''Loading tokenizer from'', Str tc],
                      [Str ''Verifying the reauthored model with prompts:'', Str prompts]]
                   @ printed2
                   @ [[Str (if ok2 then ''PASS'' else ''FAILED'')]])"
    by (simp add: verify_reauthored_transformers_def verdict_def)
qed

lemma first_check_failed_run:
  "verify_with_input_ids exact fresh_cache (stub_original [1, 0, 0] [0, 0]) succ_model
       default_input_ids default_kv_cache_max_len (1 / 100000)
     = (Inr False,
        [[Str ''Forwarding the original model...''],
         [Str ''logits_original: '', Vec [1, 0, 0]],
         [Str ''Forwarding the reauthored model...''],
         [Str ''logits_reauthored:'', Vec [0, 0, 1]]])"
proof -
  have p: "padded_tokens [[1, 2, 3, 4]] 1024
      = Inr [[1, 2, 3, 4] @ replicate (nat 1024 - length [1, 2, 3, 4 :: int]) 0]"
    by (rule padded_tokens_in_range) simp_all
  show ?thesis
    unfolding verify_with_input_ids_def default_input_ids_def default_kv_cache_max_len_def p
    by (simp add: stub_original_def succ_model_def forward_def shape1_def logits_at_def
        py_index_def allclose_def isclose_exact default_rtol_def succ_logits_def nth_append)
qed

lemma first_check_passed_run:
  "verify_with_input_ids exact fresh_cache (stub_original [0, 0, 1] [2, 0]) succ_model
       default_input_ids default_kv_cache_max_len (1 / 100000)
     = (Inr True,
        [[Str ''Forwarding the original model...''],
         [Str ''logits_original: '', Vec [0, 0, 1]],
         [Str ''Forwarding the reauthored model...''],
         [Str ''logits_reauthored:'', Vec [0, 0, 1]]])"
proof -
  have p: "padded_tokens [[1, 2, 3, 4]] 1024
      = Inr [[1, 2, 3, 4] @ replicate (nat 1024 - length [1, 2, 3, 4 :: int]) 0]"
    by (rule padded_tokens_in_range) simp_all
  show ?thesis
    unfolding verify_with_input_ids_def default_input_ids_def default_kv_cache_max_len_def p
    by (simp add: stub_original_def succ_model_def forward_def shape1_def logits_at_def
        py_index_def allclose_def isclose_exact default_rtol_def succ_logits_def nth_append)
qed

lemma second_check_failed_run:
  "verify_model_with_prompts fresh_cache (stub_original [1, 0, 0] [0, 0]) succ_model
       abc_tokenizer ''ab''
     = (Inr False,
        [[Str ''Generating answer with the original model...''],
         [Str ''outputs_from_original_model: [['', Str ''abaa'', Str '']]''],
         [Str ''Generating answer with the reauthored model...''],
         [Str ''outputs from reauthored model: [['', Str ''abca'', Str '']]'']])"
  by (simp add: verify_model_with_prompts_def abc_tokenizer_def stub_original_def py_index_0_Cons
      succ_model_run)

lemma second_check_passed_run:
  "verify_model_with_prompts fresh_cache (stub_original [0, 0, 1] [2, 0]) succ_model
       abc_tokenizer ''ab''
     = (Inr True,
        [[Str ''Generating answer with the original model...''],
         [Str ''outputs_from_original_model: [['', Str ''abca'', Str '']]''],
         [Str ''Generating answer with the reauthored model...''],
         [Str ''outputs from reauthored model: [['', Str ''abca'', Str '']]'']])"
  by (simp add: verify_model_with_prompts_def abc_tokenizer_def stub_original_def py_index_0_Cons
      succ_model_run)

theorem verify_reauthored_transformers_both_checks_witness:
  "verify_reauthored_transformers exact fresh_cache (stub_hub (stub_original [1, 0, 0] [0, 0]))
       ''ckpt'' succ_builder ''ab'' (1 / 100000) None ()
     = (Inr (),
        [[Str ''Loading checkpoint from'', Str ''ckpt''],
         [Str ''Instantiating the reauthored model from'', Str ''ckpt''],
         [Str ''Verifying the reauthored model with an arbitrary input...''],
         [Str ''Forwarding the original model...''],
         [Str ''logits_original: '', Vec [1, 0, 0]],
         [Str ''Forwarding the reauthored model...''],
         [Str ''logits_reauthored:'', Vec [0, 0, 1]],
         [Str ''FAILED''],
         [Str ''Loading tokenizer from'', Str ''ckpt''],
         [Str ''Verifying the reauthored model with prompts:'', Str ''ab''],
         [Str ''Generating answer with the original model...''],
         [Str ''outputs_from_original_model: [['', Str ''abaa'', Str '']]''],
         [Str ''Generating answer with the reauthored model...''],
         [Str ''outputs from reauthored model: [['', Str ''abca'', Str '']]''],
         [Str ''FAILED'']])
 \<and> verify_reauthored_transformers exact fresh_cache (stub_hub (stub_original [0, 0, 1] [2, 0]))
       ''ckpt'' succ_builder ''ab'' (1 / 100000) (Some ''tok'') ()
     = (Inr (),
        [[Str ''Loading checkpoint from'', Str ''ckpt''],
         [Str ''Instantiating the reauthored model from'', Str ''ckpt''],
         [Str ''Verifying the reauthored model with an arbitrary input...''],
         [Str ''Forwarding the original model...''],
         [Str ''logits_original: '', Vec [0, 0, 1]],
         [Str ''Forwarding the reauthored model...''],
         [Str ''logits_reauthored:'', Vec [0, 0, 1]],
         [Str ''PASS''],
         [Str ''Loading tokenizer from'', Str ''tok''],
         [Str ''Verifying the reauthored model with prompts:'', Str ''ab''],
         [Str ''Generating answer with the original model...''],
         [Str ''outputs_from_original_model: [['', Str ''abca'', Str '']]''],
         [Str ''Generating answer with the reauthored model...''],
         [Str ''outputs from reauthored model: [['', Str ''abca'', Str '']]''],
         [Str ''PASS'']])"
proof -
  let ?f = "stub_hub (stub_original [1, 0, 0] [0, 0])"
  let ?p = "stub_hub (stub_original [0, 0, 1] [2, 0])"
  have f1: "model_from_pretrained ?f ''ckpt'' () = Inr (stub_original [1, 0, 0] [0, 0])"
    and p1: "model_from_pretrained ?p ''ckpt'' () = Inr (stub_original [0, 0, 1] [2, 0])"
    by (simp_all add: stub_hub_def)
  have f2: "locate_cached_dir ?f ''ckpt'' = (Inr ''ckpt'', [])"
    and p2: "locate_cached_dir ?p ''ckpt'' = (Inr ''ckpt'', [])"
    by (simp_all add: stub_hub_def locate_cached_dir_def)
  have b: "succ_builder ''ckpt'' 1024 = Inr succ_model"
    by (simp add: succ_builder_def)
  have f5: "''ckpt'' = (case None :: string option of None \<Rightarrow> ''ckpt'' | Some t \<Rightarrow> t)"
    and p5: "''tok'' = (case Some ''tok'' of None \<Rightarrow> ''ckpt'' | Some t \<Rightarrow> t)"
    by simp_all
  have f6: "tokenizer_from_pretrained ?f ''ckpt'' () = Inr abc_tokenizer"
    and p6: "tokenizer_from_pretrained ?p ''tok'' () = Inr abc_tokenizer"
    by (simp_all add: stub_hub_def)
  note tf = verify_reauthored_transformers_both_checks [where builder = succ_builder
      and tokenizer_checkpoint = None and prompts = "''ab''",
      OF f1 f2 b first_check_failed_run f5]
  note tp = verify_reauthored_transformers_both_checks [where builder = succ_builder
      and tokenizer_checkpoint = "Some ''tok''" and prompts = "''ab''",
      OF p1 p2 b first_check_passed_run p5]
  from tf f6 second_check_failed_run
  have rf: "verify_reauthored_transformers exact fresh_cache ?f ''ckpt'' succ_builder ''ab''
               (1 / 100000) None ()
      = (Inr (),
         [[Str ''Loading checkpoint from'', Str ''ckpt'']] @ []
         @ [[Str ''Instantiating the reauthored model from'', Str ''ckpt''],
            [Str ''Verifying the reauthored model with an arbitrary input...'']]
         @ [[Str ''Forwarding the original model...''],
            [Str ''logits_original: '', Vec [1, 0, 0]],
            [Str ''Forwarding the reauthored model...''],
            [Str ''logits_reauthored:'', Vec [0, 0, 1]]]
         @ [[Str (if False then ''PASS'' else ''FAILED'')],
            [Str ''Loading tokenizer from'', Str ''ckpt''],
            [Str ''Verifying the reauthored model with prompts:'', Str ''ab'']]
         @ [[Str ''Generating answer with the original model...''],
            [Str ''outputs_from_original_model: [['', Str ''abaa'', Str '']]''],
            [Str ''Generating answer with the reauthored model...''],
            [Str ''outputs from reauthored model: [['', Str ''abca'', Str '']]'']]
         @ [[Str (if False then ''PASS'' else ''FAILED'')]])"
    by blast
  from tp p6 second_check_passed_run
  have rp: "verify_reauthored_transformers exact fresh_cache ?p ''ckpt'' succ_builder ''ab''
               (1 / 100000) (Some ''tok'') ()
      = (Inr (),
         [[Str ''Loading checkpoint from'', Str ''ckpt'']] @ []
         @ [[Str ''Instantiating the reauthored model from'', Str ''ckpt''],
            [Str ''Verifying the reauthored model with an arbitrary input...'']]
         @ [[Str ''Forwarding the original model...''],
            [Str ''logits_original: '', Vec [0, 0, 1]],
            [Str ''Forwarding the reauthored model...''],
            [Str ''logits_reauthored:'', Vec [0, 0, 1]]]
         @ [[Str (if True then ''PASS'' else ''FAILED'')],
            [Str ''Loading tokenizer from'', Str ''tok''],
            [Str ''Verifying the reauthored model with prompts:'', Str ''ab'']]
         @ [[Str ''Generating answer with the original model...''],
            [Str ''outputs_from_original_model: [['', Str ''abca'', Str '']]''],
            [Str ''Generating answer with the reauthored model...''],
            [Str ''outputs from reauthored model: [['', Str ''abca'', Str '']]'']]
         @ [[Str (if True then ''PASS'' else ''FAILED'')]])"
    by blast
  from rf rp show ?thesis by simp
qed

end
